theory Spec2Isabelle
  imports Complex_Main
begin

section \<open>HybridSearch AI: a shallow embedding of the request pipeline\<close>

text \<open>
  The development follows \<^verbatim>\<open>app.py\<close>, \<^verbatim>\<open>search/web_search.py\<close> and
  \<^verbatim>\<open>models/llm_handler.py\<close>. Process-wide dictionaries and lists are passed
  explicitly and returned updated. Every reading of the clock is an argument of the
  function that reads it (instants are real numbers of seconds), and every outbound
  call (search providers, model backends, the operating system) is a function argument
  whose result is either a raised exception or the returned value.
\<close>

subsection \<open>Python values\<close>

text \<open>
  Exceptions carry their class and the text \<^verbatim>\<open>str(e)\<close>. The classes are the ones
  the handlers of the source tell apart; all of them derive from \<^verbatim>\<open>Exception\<close>.
  \<^verbatim>\<open>ConnectTimeout\<close> derives from both \<^verbatim>\<open>ConnectionError\<close> and \<^verbatim>\<open>Timeout\<close>.
\<close>

datatype exn_class =
    TimeoutExc | ConnectTimeoutExc | ConnectionErrorExc | HTTPErrorExc | RequestExc
  | TimeoutExpiredExc | FileNotFoundExc | KeyErrorExc | OtherExc

datatype exn = Exn exn_class string

fun exn_str :: "exn \<Rightarrow> string" where
  "exn_str (Exn c msg) = msg"

fun is_Timeout :: "exn \<Rightarrow> bool" where
  "is_Timeout (Exn c msg) = (c = TimeoutExc \<or> c = ConnectTimeoutExc)"

fun is_ConnectionError :: "exn \<Rightarrow> bool" where
  "is_ConnectionError (Exn c msg) = (c = ConnectionErrorExc \<or> c = ConnectTimeoutExc)"

fun is_RequestException :: "exn \<Rightarrow> bool" where
  "is_RequestException (Exn c msg) =
     (c = TimeoutExc \<or> c = ConnectTimeoutExc \<or> c = ConnectionErrorExc \<or> c = HTTPErrorExc \<or> c = RequestExc)"

text \<open>Truthiness of an optional string: \<^verbatim>\<open>None\<close> and \<^verbatim>\<open>''\<close> are false.\<close>

fun truthy :: "string option \<Rightarrow> bool" where
  "truthy None = False"
| "truthy (Some s) = (s \<noteq> [])"

text \<open>\<^verbatim>\<open>xs[:n]\<close>: a negative bound counts from the end.\<close>

definition py_slice_to :: "int \<Rightarrow> 'a list \<Rightarrow> 'a list" where
  "py_slice_to n xs = (if 0 \<le> n then take (nat n) xs else take (length xs - nat (- n)) xs)"

text \<open>\<^verbatim>\<open>sep.join(xs)\<close>.\<close>

fun join :: "string \<Rightarrow> string list \<Rightarrow> string" where
  "join sep [] = []"
| "join sep [x] = x"
| "join sep (x # y # ys) = x @ sep @ join sep (y # ys)"

text \<open>
  \<^verbatim>\<open>s.strip()\<close> removes the characters for which \<^verbatim>\<open>isspace()\<close> holds from both
  ends; below code point 256 these are 9 to 13, 28 to 32, 133 and 160.
\<close>

definition isspace :: "char \<Rightarrow> bool" where
  "isspace c = (let n = (of_char c :: nat) in (9 \<le> n \<and> n \<le> 13) \<or> (28 \<le> n \<and> n \<le> 32) \<or> n = 133 \<or> n = 160)"

definition strip :: "string \<Rightarrow> string" where
  "strip s = rev (dropWhile isspace (rev (dropWhile isspace s)))"

text \<open>\<^verbatim>\<open>str(n)\<close> for a non-negative integer.\<close>

fun str_nat :: "nat \<Rightarrow> string" where
  "str_nat n = (if n < 10 then [''0123456789'' ! n] else str_nat (n div 10) @ [''0123456789'' ! (n mod 10)])"

declare str_nat.simps [simp del]

text \<open>\<^verbatim>\<open>s.replace(old, new)\<close> for a non-empty \<^verbatim>\<open>old\<close> (the only use in the source).\<close>

function replace :: "string \<Rightarrow> string \<Rightarrow> string \<Rightarrow> string" where
  "replace old new [] = []"
| "replace old new (c # s) =
     (if old \<noteq> [] \<and> take (length old) (c # s) = old
      then new @ replace old new (drop (length old) (c # s))
      else c # replace old new s)"
  by pat_completeness auto
termination
  by (relation "measure (\<lambda>(old, new, s). length s)") (auto simp: Suc_le_eq)

subsection \<open>Rate limiting\<close>

definition RATE_LIMIT_SEARCHES :: nat where
  "RATE_LIMIT_SEARCHES = 50"

definition RATE_LIMIT_WINDOW :: real where
  "RATE_LIMIT_WINDOW = 3600"

text \<open>
  \<^verbatim>\<open>rate_limit_tracker\<close> is a \<^verbatim>\<open>defaultdict(list)\<close>: a key never written reads as
  the empty list.
\<close>

type_synonym tracker = "string \<Rightarrow> real list"

definition check_rate_limit :: "real \<Rightarrow> string \<Rightarrow> tracker \<Rightarrow> (bool \<times> int) \<times> tracker" where
  "check_rate_limit now user_id rate_limit_tracker =
     (let tr = rate_limit_tracker(user_id := filter (\<lambda>ts. now - ts < RATE_LIMIT_WINDOW) (rate_limit_tracker user_id))
      in if RATE_LIMIT_SEARCHES \<le> length (tr user_id)
         then ((False, 0), tr)
         else ((True, int RATE_LIMIT_SEARCHES - int (length (tr user_id))), tr))"

definition record_search :: "real \<Rightarrow> string \<Rightarrow> tracker \<Rightarrow> tracker" where
  "record_search now user_id rate_limit_tracker =
     rate_limit_tracker(user_id := rate_limit_tracker user_id @ [now])"

subsection \<open>The result cache\<close>

text \<open>
  \<^verbatim>\<open>cache_result(duration)(func)\<close>, called with arguments that give \<^verbatim>\<open>cache_key\<close>.
  The wrapped function runs in a world \<open>'w\<close> (whatever it reads and changes outside
  the cache) and raises or returns. The wrapper reads the clock once for the lookup and
  once more, after the wrapped function has returned, for the stored entry.
\<close>

type_synonym 'v cache = "string \<rightharpoonup> ('v \<times> real)"

definition cache_miss :: "('w \<Rightarrow> (exn + 'v) \<times> 'w) \<Rightarrow> string \<Rightarrow> real \<Rightarrow> 'v cache \<Rightarrow> 'w \<Rightarrow> (exn + 'v) \<times> 'v cache \<times> 'w" where
  "cache_miss func cache_key t_store search_cache w =
     (case func w of
        (Inl e, w') \<Rightarrow> (Inl e, search_cache, w')
      | (Inr result, w') \<Rightarrow> (Inr result, search_cache(cache_key \<mapsto> (result, t_store)), w'))"

definition cache_result ::
  "real \<Rightarrow> ('w \<Rightarrow> (exn + 'v) \<times> 'w) \<Rightarrow> string \<Rightarrow> real \<Rightarrow> real \<Rightarrow> 'v cache \<Rightarrow> 'w \<Rightarrow> (exn + 'v) \<times> 'v cache \<times> 'w" where
  "cache_result duration func cache_key t_lookup t_store search_cache w =
     (case search_cache cache_key of
        Some (cached_data, timestamp) \<Rightarrow>
          if t_lookup - timestamp < duration then (Inr cached_data, search_cache, w)
          else cache_miss func cache_key t_store search_cache w
      | None \<Rightarrow> cache_miss func cache_key t_store search_cache w)"

subsection \<open>Search history\<close>

record history_entry =
  he_query :: string
  he_mode :: string
  he_timestamp :: string

text \<open>
  \<^verbatim>\<open>MAX_HISTORY\<close> is read from the environment when the module is loaded (default
  10); it is the first argument. The argument \<open>now\<close> is the formatted current time.
\<close>

definition add_to_history :: "int \<Rightarrow> string \<Rightarrow> string \<Rightarrow> string \<Rightarrow> history_entry list \<Rightarrow> history_entry list" where
  "add_to_history MAX_HISTORY query mode now search_history =
     py_slice_to MAX_HISTORY
       (\<lparr>he_query = query, he_mode = mode, he_timestamp = now\<rparr> # search_history)"

subsection \<open>Configuration\<close>

text \<open>
  The process environment is a dictionary of strings; \<^verbatim>\<open>os.getenv(name, default)\<close>
  is \<open>dict_get environ name default\<close>.
\<close>

type_synonym environ = "string \<rightharpoonup> string"

definition dict_get :: "('k \<rightharpoonup> 'v) \<Rightarrow> 'k \<Rightarrow> 'v \<Rightarrow> 'v" where
  "dict_get d k dflt = (case d k of Some v \<Rightarrow> v | None \<Rightarrow> dflt)"

definition API_KEYS :: "environ \<Rightarrow> string \<Rightarrow> string option" where
  "API_KEYS environ k =
     (if k = ''serper'' then environ ''SERPER_API_KEY''
      else if k = ''groq'' then environ ''GROQ_API_KEY''
      else if k = ''openai'' then environ ''OPENAI_API_KEY''
      else None)"

record model_config =
  backend :: string
  model :: string
  display_name :: string

definition groq_config :: "environ \<Rightarrow> model_config" where
  "groq_config environ =
     \<lparr>backend = ''Groq API'',
      model = dict_get environ ''GROQ_MODEL'' ''llama-3.3-70b-versatile'',
      display_name = replace ''-versatile'' [] (dict_get environ ''GROQ_MODEL'' ''llama-3.3-70b-versatile'')\<rparr>"

definition openai_config :: "environ \<Rightarrow> model_config" where
  "openai_config environ =
     \<lparr>backend = ''OpenAI'',
      model = dict_get environ ''OPENAI_MODEL'' ''gpt-4o-mini'',
      display_name = dict_get environ ''OPENAI_MODEL'' ''gpt-4o-mini''\<rparr>"

definition local_config :: "environ \<Rightarrow> model_config" where
  "local_config environ =
     \<lparr>backend = ''Ollama'',
      model = dict_get environ ''LOCAL_MODEL'' ''llama2'',
      display_name = dict_get environ ''LOCAL_MODEL'' ''llama2''\<rparr>"

definition MODEL_CONFIGS :: "environ \<Rightarrow> string \<rightharpoonup> model_config" where
  "MODEL_CONFIGS environ =
     [''groq'' \<mapsto> groq_config environ, ''openai'' \<mapsto> openai_config environ, ''local'' \<mapsto> local_config environ]"

subsection \<open>Search providers\<close>

record source_result =
  title :: string
  snippet :: string
  url :: string
  source :: string

type_synonym json_obj = "string \<rightharpoonup> string"

text \<open>
  The decoded body of a Serper response: the \<^verbatim>\<open>organic\<close> list and the
  \<^verbatim>\<open>knowledgeGraph\<close> object, each present or absent.
\<close>

record serper_json =
  organic :: "json_obj list option"
  knowledgeGraph :: "json_obj option"

text \<open>
  A Serper call takes the key header and the payload fields \<^verbatim>\<open>q\<close> and \<^verbatim>\<open>num\<close>.
  Its result stands for \<^verbatim>\<open>requests.post\<close> (timeout 10 s), \<^verbatim>\<open>raise_for_status\<close>
  and \<^verbatim>\<open>json\<close> together: the first exception one of them raises, or the body.
  A DuckDuckGo call takes the query and \<^verbatim>\<open>max_results\<close>.
\<close>

type_synonym serper_api = "string option \<Rightarrow> string \<Rightarrow> int \<Rightarrow> exn + serper_json"
type_synonym ddg_api = "string \<Rightarrow> int \<Rightarrow> exn + json_obj list"

definition organic_items :: "serper_json \<Rightarrow> json_obj list" where
  "organic_items results = (case organic results of Some items \<Rightarrow> items | None \<Rightarrow> [])"

text \<open>\<^verbatim>\<open>search_web\<close> of \<^verbatim>\<open>app.py\<close>, without its cache decorator.\<close>

definition search_web :: "environ \<Rightarrow> serper_api \<Rightarrow> string \<Rightarrow> exn + source_result list" where
  "search_web environ post query =
     (if \<not> truthy (API_KEYS environ ''serper'') then
        Inr [\<lparr>title = ''API Key Not Configured'',
              snippet = ''Please add SERPER_API_KEY to your .env file. Get one at https://serper.dev'',
              url = ''https://serper.dev'',
              source = ''Error''\<rparr>]
      else
        (case post (API_KEYS environ ''serper'') query 5 of
           Inr results \<Rightarrow>
             (let sources =
                    map (\<lambda>item. \<lparr>title = dict_get item ''title'' ''No title'',
                                  snippet = dict_get item ''snippet'' ''No description available'',
                                  url = dict_get item ''link'' ''#'',
                                  source = ''Serper''\<rparr>)
                        (py_slice_to 5 (organic_items results))
              in if sources = []
                 then Inr [\<lparr>title = ''No Results Found'',
                            snippet = ''Try a different search query.'',
                            url = ''#'',
                            source = ''Serper''\<rparr>]
                 else Inr sources)
         | Inl e \<Rightarrow>
             if is_Timeout e then
               Inr [\<lparr>title = ''Search Timeout'',
                     snippet = ''The search request took too long. Please try again.'',
                     url = ''#'',
                     source = ''Error''\<rparr>]
             else if is_RequestException e then
               Inr [\<lparr>title = ''Search Error'',
                     snippet = ''Unable to perform search: '' @ exn_str e,
                     url = ''#'',
                     source = ''Error''\<rparr>]
             else Inl e))"

text \<open>
  The class \<^verbatim>\<open>WebSearch\<close> of \<^verbatim>\<open>search/web_search.py\<close>. Its methods
  \<^verbatim>\<open>_search_serper\<close> and \<^verbatim>\<open>_search_duckduckgo\<close> lose the leading underscore.
\<close>

record WebSearch =
  serper_key :: "string option"

definition search_serper :: "WebSearch \<Rightarrow> serper_api \<Rightarrow> string \<Rightarrow> int \<Rightarrow> exn + source_result list" where
  "search_serper self post query max_results =
     (case post (serper_key self) query max_results of
        Inl e \<Rightarrow> Inl e
      | Inr data \<Rightarrow>
          (let results =
                 map (\<lambda>r. \<lparr>title = dict_get r ''title'' [],
                            snippet = dict_get r ''snippet'' [],
                            url = dict_get r ''link'' [],
                            source = ''Google (via Serper)''\<rparr>)
                     (py_slice_to max_results (organic_items data))
           in case knowledgeGraph data of
                None \<Rightarrow> Inr results
              | Some kg \<Rightarrow>
                  if int (length results) < max_results \<and> kg ''description'' \<noteq> None
                  then Inr (\<lparr>title = dict_get kg ''title'' [],
                             snippet = dict_get kg ''description'' [],
                             url = dict_get kg ''website'' [],
                             source = ''Knowledge Graph''\<rparr> # results)
                  else Inr results))"

text \<open>\<^verbatim>\<open>r['title']\<close> raises \<^verbatim>\<open>KeyError\<close> on a missing key.\<close>

definition subscript :: "json_obj \<Rightarrow> string \<Rightarrow> exn + string" where
  "subscript r k = (case r k of Some v \<Rightarrow> Inr v | None \<Rightarrow> Inl (Exn KeyErrorExc k))"

definition ddg_item :: "json_obj \<Rightarrow> exn + source_result" where
  "ddg_item r =
     (case subscript r ''title'' of
        Inl e \<Rightarrow> Inl e
      | Inr t \<Rightarrow>
          (case subscript r ''body'' of
             Inl e \<Rightarrow> Inl e
           | Inr b \<Rightarrow>
               (case subscript r ''href'' of
                  Inl e \<Rightarrow> Inl e
                | Inr h \<Rightarrow> Inr \<lparr>title = t, snippet = b, url = h, source = ''DuckDuckGo''\<rparr>)))"

text \<open>A list comprehension whose element expression may raise.\<close>

fun comprehension :: "('a \<Rightarrow> exn + 'b) \<Rightarrow> 'a list \<Rightarrow> exn + 'b list" where
  "comprehension f [] = Inr []"
| "comprehension f (x # xs) =
     (case f x of
        Inl e \<Rightarrow> Inl e
      | Inr y \<Rightarrow> (case comprehension f xs of Inl e \<Rightarrow> Inl e | Inr ys \<Rightarrow> Inr (y # ys)))"

definition search_duckduckgo :: "ddg_api \<Rightarrow> string \<Rightarrow> int \<Rightarrow> exn + source_result list" where
  "search_duckduckgo ddgs_text query max_results =
     (case ddgs_text query max_results of
        Inl e \<Rightarrow> Inr []
      | Inr ddgs_results \<Rightarrow>
          (case comprehension ddg_item ddgs_results of
             Inl e \<Rightarrow> Inr []
           | Inr rs \<Rightarrow> Inr rs))"

definition WebSearch_search :: "WebSearch \<Rightarrow> serper_api \<Rightarrow> ddg_api \<Rightarrow> string \<Rightarrow> int \<Rightarrow> exn + source_result list" where
  "WebSearch_search self post ddgs_text query max_results =
     (if truthy (serper_key self) then
        (case search_serper self post query max_results of
           Inr results \<Rightarrow>
             if results \<noteq> [] then Inr results
             else search_duckduckgo ddgs_text query max_results
         | Inl e \<Rightarrow> search_duckduckgo ddgs_text query max_results)
      else search_duckduckgo ddgs_text query max_results)"

subsection \<open>Answer generation\<close>

text \<open>
  A chat completion request: the key the client was built with, the model, the
  messages as (role, content) pairs, the temperature and the token ceiling. The result
  of a chat call is the content of the first choice, or the exception raised while
  building the client or calling it.
\<close>

record chat_request =
  cr_api_key :: "string option"
  cr_model :: string
  cr_messages :: "(string \<times> string) list"
  cr_temperature :: real
  cr_max_tokens :: int

type_synonym chat_api = "chat_request \<Rightarrow> exn + string"

text \<open>
  The answer of the local daemon: the status code and, read only when the status is
  200, \<^verbatim>\<open>response.json().get('response')\<close> (an exception of \<^verbatim>\<open>json\<close>, an
  absent field, or the text). The call takes the model and the prompt.
\<close>

record ollama_response =
  status_code :: nat
  json_response :: "exn + string option"

type_synonym ollama_api = "string \<Rightarrow> string \<Rightarrow> exn + ollama_response"

text \<open>The context expression that the three generators share word for word.\<close>

definition build_context :: "source_result list \<Rightarrow> string" where
  "build_context sources =
     join ''\<newline>\<newline>''
       (map (\<lambda>s. ''**'' @ title s @ ''**: '' @ snippet s)
            (filter (\<lambda>s. source s \<noteq> ''Error'') sources))"

text \<open>
  The context in the words of the specification: the renderings \<^verbatim>\<open>title: snippet\<close>
  of the sources not tagged \<^verbatim>\<open>Error\<close>, joined by a blank line.
\<close>

definition spec_context :: "source_result list \<Rightarrow> string" where
  "spec_context sources =
     join ''\<newline>\<newline>''
       (map (\<lambda>s. title s @ '': '' @ snippet s)
            (filter (\<lambda>s. source s \<noteq> ''Error'') sources))"

definition hosted_prompt :: "string \<Rightarrow> string \<Rightarrow> string" where
  "hosted_prompt query context =
     ''You are a helpful AI assistant. Based on the following sources, provide a comprehensive and well-structured answer to this question: ''
     @ query
     @ ''\<newline>\<newline>Sources:\<newline>''
     @ context
     @ ''\<newline>\<newline>Instructions:\<newline>- Provide a detailed, informative answer\<newline>- Use bullet points and clear structure\<newline>- Cite information naturally\<newline>- If sources are insufficient, acknowledge limitations\<newline>- Be accurate and objective\<newline>\<newline>Answer:''"

definition local_prompt :: "string \<Rightarrow> string \<Rightarrow> string" where
  "local_prompt query context =
     ''Based on the following sources, answer this question: ''
     @ query
     @ ''\<newline>\<newline>Sources:\<newline>''
     @ context
     @ ''\<newline>\<newline>Provide a comprehensive answer:''"

definition generate_answer_groq :: "environ \<Rightarrow> chat_api \<Rightarrow> string \<Rightarrow> source_result list \<Rightarrow> string" where
  "generate_answer_groq environ chat query sources =
     (if \<not> truthy (API_KEYS environ ''groq'') then
        ''Error: Groq API key not configured. Please add GROQ_API_KEY to your .env file.''
      else
        (let context = build_context sources;
             prompt = hosted_prompt query context
         in case chat \<lparr>cr_api_key = API_KEYS environ ''groq'',
                        cr_model = model (groq_config environ),
                        cr_messages = [(''user'', prompt)],
                        cr_temperature = 7 / 10,
                        cr_max_tokens = 2000\<rparr> of
              Inr content \<Rightarrow> content
            | Inl e \<Rightarrow> ''Error generating answer with Groq: '' @ exn_str e
                       @ ''\<newline>\<newline>Please check your API key or try a different model.''))"

definition generate_answer_openai :: "environ \<Rightarrow> chat_api \<Rightarrow> string \<Rightarrow> source_result list \<Rightarrow> string" where
  "generate_answer_openai environ chat query sources =
     (if \<not> truthy (API_KEYS environ ''openai'') then
        ''Error: OpenAI API key not configured. Please add OPENAI_API_KEY to your .env file.''
      else
        (let context = build_context sources;
             prompt = hosted_prompt query context
         in case chat \<lparr>cr_api_key = API_KEYS environ ''openai'',
                        cr_model = model (openai_config environ),
                        cr_messages = [(''user'', prompt)],
                        cr_temperature = 7 / 10,
                        cr_max_tokens = 2000\<rparr> of
              Inr content \<Rightarrow> content
            | Inl e \<Rightarrow> ''Error generating answer with OpenAI: '' @ exn_str e
                       @ ''\<newline>\<newline>Please check your API key or try a different model.''))"

definition local_failure :: "exn \<Rightarrow> string" where
  "local_failure e =
     (if is_ConnectionError e
      then ''Error: Cannot connect to Ollama. Make sure Ollama is running locally (http://localhost:11434)''
      else ''Error generating answer with Ollama: '' @ exn_str e)"

definition generate_answer_local :: "environ \<Rightarrow> ollama_api \<Rightarrow> string \<Rightarrow> source_result list \<Rightarrow> string" where
  "generate_answer_local environ post query sources =
     (let context = build_context sources;
          prompt = local_prompt query context;
          local_model = model (local_config environ)
      in case post local_model prompt of
           Inl e \<Rightarrow> local_failure e
         | Inr response \<Rightarrow>
             if status_code response = 200 then
               (case json_response response of
                  Inl e \<Rightarrow> local_failure e
                | Inr None \<Rightarrow> ''No response generated''
                | Inr (Some text) \<Rightarrow> text)
             else ''Error: Ollama returned status code '' @ str_nat (status_code response))"

text \<open>The outbound calls of the application, and Python's \<^verbatim>\<open>repr\<close> of a string.\<close>

record services =
  serper_post :: serper_api
  groq_chat :: chat_api
  openai_chat :: chat_api
  ollama_post :: ollama_api
  py_repr :: "string \<Rightarrow> string"

definition generate_answer :: "environ \<Rightarrow> services \<Rightarrow> string \<Rightarrow> source_result list \<Rightarrow> string \<Rightarrow> string" where
  "generate_answer environ sv query sources mode =
     (if mode = ''openai'' then generate_answer_openai environ (openai_chat sv) query sources
      else if mode = ''local'' then generate_answer_local environ (ollama_post sv) query sources
      else generate_answer_groq environ (groq_chat sv) query sources)"

text \<open>
  The dispatch in the words of the specification: a closed enumeration of backend
  modes, one strategy for each, and the default for a mode that is not recognised.
\<close>

datatype BackendMode = PrimaryHosted | SecondaryHosted | LocalBackend

definition spec_select_backend :: "string \<Rightarrow> BackendMode" where
  "spec_select_backend mode =
     (if mode = ''groq'' then PrimaryHosted
      else if mode = ''openai'' then SecondaryHosted
      else if mode = ''local'' then LocalBackend
      else PrimaryHosted)"

fun spec_run_backend :: "BackendMode \<Rightarrow> environ \<Rightarrow> services \<Rightarrow> string \<Rightarrow> source_result list \<Rightarrow> string" where
  "spec_run_backend PrimaryHosted environ sv query sources = generate_answer_groq environ (groq_chat sv) query sources"
| "spec_run_backend SecondaryHosted environ sv query sources = generate_answer_openai environ (openai_chat sv) query sources"
| "spec_run_backend LocalBackend environ sv query sources = generate_answer_local environ (ollama_post sv) query sources"

subsection \<open>Session\<close>

type_synonym session = "string \<rightharpoonup> string"

text \<open>The first argument is the value \<^verbatim>\<open>secrets.token_hex(16)\<close> gives if it is called.\<close>

definition get_user_id :: "string \<Rightarrow> session \<Rightarrow> string \<times> session" where
  "get_user_id token session =
     (case session ''user_id'' of
        Some u \<Rightarrow> (u, session)
      | None \<Rightarrow> (token, session(''user_id'' \<mapsto> token)))"

definition get_current_mode :: "session \<Rightarrow> string" where
  "get_current_mode session = dict_get session ''ai_mode'' ''groq''"

record model_info =
  mi_backend :: string
  mi_model :: string
  mi_mode :: string
  mi_status :: string

definition get_model_info :: "environ \<Rightarrow> session \<Rightarrow> string option \<Rightarrow> model_info" where
  "get_model_info environ session mode_arg =
     (let mode = (case mode_arg of None \<Rightarrow> get_current_mode session | Some m \<Rightarrow> m);
          config = dict_get (MODEL_CONFIGS environ) mode (groq_config environ)
      in \<lparr>mi_backend = backend config, mi_model = display_name config, mi_mode = mode, mi_status = ''active''\<rparr>)"

subsection \<open>Routes\<close>

text \<open>
  The process-wide state, and what one request brings with it: the submitted form, the
  token drawn if the session has no identity yet, and the clock readings in the order
  the handler takes them (rate check and record of the decorator, rate check of the
  handler, cache lookup, cache store, history time stamp).
\<close>

record app_state =
  rate_limit_tracker :: tracker
  search_cache :: "source_result list cache"
  search_history :: "history_entry list"

record request =
  form :: "string \<rightharpoonup> string"
  fresh_token :: string
  t_check :: real
  t_record :: real
  t_recheck :: real
  t_lookup :: real
  t_store :: real
  t_history :: string

text \<open>A rendered template: \<^verbatim>\<open>error.html\<close> or \<^verbatim>\<open>results.html\<close> with its arguments.\<close>

datatype page =
    ErrorPage string
  | ResultsPage string string "source_result list" model_info int

type_synonym response = "page \<times> nat"

text \<open>
  The handler \<^verbatim>\<open>search\<close> itself, under its decorator. The key of the cached
  \<^verbatim>\<open>search_web(query)\<close> is the function name, \<^verbatim>\<open>str((query,))\<close> and \<^verbatim>\<open>str({})\<close>.
\<close>

definition search :: "environ \<Rightarrow> int \<Rightarrow> services \<Rightarrow> request \<Rightarrow> session \<Rightarrow> app_state \<Rightarrow> response \<times> session \<times> app_state" where
  "search environ MAX_HISTORY sv req session st =
     (let query = strip (dict_get (form req) ''query'' [])
      in if query = [] then ((ErrorPage ''Please enter a search query'', 400), session, st)
         else
           (let mode = get_current_mode session;
                info = get_model_info environ session (Some mode);
                (user_id, session1) = get_user_id (fresh_token req) session;
                ((allowed, remaining), tr) = check_rate_limit (t_recheck req) user_id (rate_limit_tracker st);
                st1 = st\<lparr>rate_limit_tracker := tr\<rparr>
            in case cache_result 3600 (\<lambda>w. (search_web environ (serper_post sv) query, w))
                      (''search_web:('' @ py_repr sv query @ '',):{}'')
                      (t_lookup req) (t_store req) (search_cache st1) () of
                 (Inl e, c, w) \<Rightarrow>
                   ((ErrorPage (''An error occurred: '' @ exn_str e), 500), session1, st1\<lparr>search_cache := c\<rparr>)
               | (Inr sources, c, w) \<Rightarrow>
                   (let answer = generate_answer environ sv query sources mode;
                        h = add_to_history MAX_HISTORY query mode (t_history req) (search_history st1)
                    in ((ResultsPage query answer sources info remaining, 200),
                        session1, st1\<lparr>search_cache := c, search_history := h\<rparr>))))"

definition rate_limit_decorator ::
  "(request \<Rightarrow> session \<Rightarrow> app_state \<Rightarrow> response \<times> session \<times> app_state)
   \<Rightarrow> request \<Rightarrow> session \<Rightarrow> app_state \<Rightarrow> response \<times> session \<times> app_state" where
  "rate_limit_decorator func req session st =
     (let (user_id, session1) = get_user_id (fresh_token req) session;
          ((allowed, remaining), tr) = check_rate_limit (t_check req) user_id (rate_limit_tracker st)
      in if \<not> allowed
         then ((ErrorPage ''Rate limit exceeded. Please try again in an hour.'', 429),
               session1, st\<lparr>rate_limit_tracker := tr\<rparr>)
         else func req session1 (st\<lparr>rate_limit_tracker := record_search (t_record req) user_id tr\<rparr>))"

text \<open>What the route \<^verbatim>\<open>/search\<close> runs: the decorated handler.\<close>

definition search_route :: "environ \<Rightarrow> int \<Rightarrow> services \<Rightarrow> request \<Rightarrow> session \<Rightarrow> app_state \<Rightarrow> response \<times> session \<times> app_state" where
  "search_route environ MAX_HISTORY sv = rate_limit_decorator (search environ MAX_HISTORY sv)"

text \<open>
  The session travels with the client: each search of a session starts from the session
  the previous one handed back. Between two searches of one session other clients act,
  so each search meets a process state of its own.
\<close>

fun session_after :: "environ \<Rightarrow> int \<Rightarrow> session \<Rightarrow> (services \<times> request \<times> app_state) list \<Rightarrow> session" where
  "session_after environ MAX_HISTORY session [] = session"
| "session_after environ MAX_HISTORY session ((sv, req, st) # rest) =
     session_after environ MAX_HISTORY (fst (snd (search_route environ MAX_HISTORY sv req session st))) rest"

text \<open>The JSON body of \<^verbatim>\<open>/switch_mode\<close>: success with mode, backend and model, or failure with the error text.\<close>

datatype switch_reply =
    SwitchSuccess string string string
  | SwitchFailure string

definition switch_mode :: "environ \<Rightarrow> (string \<rightharpoonup> string) \<Rightarrow> session \<Rightarrow> (switch_reply \<times> nat) \<times> session" where
  "switch_mode environ form_data session =
     (let mode = dict_get form_data ''mode'' ''groq''
      in case MODEL_CONFIGS environ mode of
           None \<Rightarrow> ((SwitchFailure (''Invalid mode: '' @ mode), 400), session)
         | Some config \<Rightarrow>
             ((SwitchSuccess mode (backend config) (display_name config), 200),
              session(''ai_mode'' \<mapsto> mode)))"

subsection \<open>The handler class of the model package\<close>

text \<open>
  \<^verbatim>\<open>LLMHandler\<close> keeps the mode and the model name; its clients are the chat
  calls passed to \<^verbatim>\<open>generate\<close>. Building a client takes the key and may raise.
\<close>

record LLMHandler =
  self_mode :: string
  self_model :: string

definition LLMHandler_init :: "environ \<Rightarrow> (string option \<Rightarrow> exn + unit) \<Rightarrow> (string option \<Rightarrow> exn + unit) \<Rightarrow> exn + LLMHandler" where
  "LLMHandler_init environ Groq OpenAI =
     (let mode = dict_get environ ''LLM_MODE'' ''local''
      in if mode = ''groq'' then
           (case Groq (environ ''GROQ_API_KEY'') of
              Inl e \<Rightarrow> Inl e
            | Inr u \<Rightarrow> Inr \<lparr>self_mode = mode, self_model = dict_get environ ''GROQ_MODEL'' ''llama3-8b-8192''\<rparr>)
         else if mode = ''openai'' then
           (case OpenAI (environ ''OPENAI_API_KEY'') of
              Inl e \<Rightarrow> Inl e
            | Inr u \<Rightarrow> Inr \<lparr>self_mode = mode, self_model = dict_get environ ''OPENAI_MODEL'' ''gpt-3.5-turbo''\<rparr>)
         else Inr \<lparr>self_mode = mode, self_model = dict_get environ ''LOCAL_MODEL'' ''llama3.2:3b''\<rparr>)"

text \<open>\<^verbatim>\<open>subprocess.run\<close> with captured text output and a timeout of 60 s.\<close>

record completed_process =
  returncode :: int
  stdout :: string
  stderr :: string

type_synonym run_api = "string list \<Rightarrow> exn + completed_process"

fun generate_local_failure :: "exn \<Rightarrow> string" where
  "generate_local_failure (Exn c msg) =
     (if c = TimeoutExpiredExc then ''Error: Request timed out. Try a shorter prompt or faster model.''
      else if c = FileNotFoundExc then ''Error: Ollama not installed. Please install from https://ollama.com''
      else ''Error with local model: '' @ msg)"

definition generate_local :: "LLMHandler \<Rightarrow> run_api \<Rightarrow> string \<Rightarrow> string" where
  "generate_local self run prompt =
     (case run [''ollama'', ''run'', self_model self, prompt] of
        Inr result \<Rightarrow>
          if returncode result = 0 then strip (stdout result)
          else ''Error: '' @ stderr result
      | Inl e \<Rightarrow> generate_local_failure e)"

definition system_message :: string where
  "system_message = ''You are a helpful AI assistant that provides accurate, well-researched answers with proper citations from search results.''"

definition generate_groq :: "LLMHandler \<Rightarrow> environ \<Rightarrow> chat_api \<Rightarrow> string \<Rightarrow> int \<Rightarrow> exn + string" where
  "generate_groq self environ chat prompt max_tokens =
     chat \<lparr>cr_api_key = environ ''GROQ_API_KEY'',
           cr_model = self_model self,
           cr_messages = [(''system'', system_message), (''user'', prompt)],
           cr_temperature = 1 / 2,
           cr_max_tokens = max_tokens\<rparr>"

definition generate_openai :: "LLMHandler \<Rightarrow> environ \<Rightarrow> chat_api \<Rightarrow> string \<Rightarrow> int \<Rightarrow> exn + string" where
  "generate_openai self environ chat prompt max_tokens =
     chat \<lparr>cr_api_key = environ ''OPENAI_API_KEY'',
           cr_model = self_model self,
           cr_messages = [(''system'', system_message), (''user'', prompt)],
           cr_temperature = 1 / 2,
           cr_max_tokens = max_tokens\<rparr>"

text \<open>
  \<^verbatim>\<open>generate\<close> returns a string or, where no \<^verbatim>\<open>return\<close> statement is reached,
  Python's \<^verbatim>\<open>None\<close>; the outer sum is for an exception leaving the method.
\<close>

definition absorb :: "exn + string \<Rightarrow> exn + string option" where
  "absorb r = (case r of Inr text \<Rightarrow> Inr (Some text) | Inl e \<Rightarrow> Inr (Some (''Error generating response: '' @ exn_str e)))"

definition generate ::
  "LLMHandler \<Rightarrow> environ \<Rightarrow> run_api \<Rightarrow> chat_api \<Rightarrow> chat_api \<Rightarrow> string \<Rightarrow> string \<Rightarrow> int \<Rightarrow> exn + string option" where
  "generate self environ run groq openai prompt context max_tokens =
     (let full_prompt = (if context \<noteq> [] then context @ ''\<newline>\<newline>'' @ prompt else prompt)
      in if self_mode self = ''local'' then absorb (Inr (generate_local self run full_prompt))
         else if self_mode self = ''groq'' then absorb (generate_groq self environ groq full_prompt max_tokens)
         else if self_mode self = ''openai'' then absorb (generate_openai self environ openai full_prompt max_tokens)
         else Inr None)"

subsection \<open>Example surroundings\<close>

text \<open>
  Concrete outbound services for the worked examples: a network on which every call
  fails to connect, and a compute function that returns how often it has run.
\<close>

definition unreachable :: exn where
  "unreachable = Exn ConnectionErrorExc ''connection refused''"

definition offline_services :: services where
  "offline_services =
     \<lparr>serper_post = (\<lambda>key q num. Inl unreachable),
      groq_chat = (\<lambda>r. Inl unreachable),
      openai_chat = (\<lambda>r. Inl unreachable),
      ollama_post = (\<lambda>m p. Inl unreachable),
      py_repr = (\<lambda>s. [CHR 0x27] @ s @ [CHR 0x27])\<rparr>"

definition counting_compute :: "nat \<Rightarrow> (exn + nat) \<times> nat" where
  "counting_compute calls = (Inr calls, Suc calls)"

text \<open>The state of a process that has just started, and a request submitting one query.\<close>

definition fresh_state :: app_state where
  "fresh_state = \<lparr>rate_limit_tracker = (\<lambda>u. []), search_cache = Map.empty, search_history = []\<rparr>"

definition example_request :: "string \<Rightarrow> request" where
  "example_request q =
     \<lparr>form = [''query'' \<mapsto> q],
      fresh_token = ''00112233445566778899aabbccddeeff'',
      t_check = 1, t_record = 2, t_recheck = 3, t_lookup = 4, t_store = 5,
      t_history = ''2024-01-01 00:00:00''\<rparr>"

section \<open>Verified properties\<close>

subsection \<open>Rate limiting\<close>

lemma check_rate_limit_record:
  "snd (check_rate_limit now uid tr) = tr(uid := filter (\<lambda>ts. now - ts < RATE_LIMIT_WINDOW) (tr uid))"
  by (simp add: check_rate_limit_def Let_def)

lemma check_rate_limit_decision:
  "fst (check_rate_limit now uid tr) =
     (let n = length (filter (\<lambda>ts. now - ts < RATE_LIMIT_WINDOW) (tr uid))
      in (n < RATE_LIMIT_SEARCHES, max 0 (int RATE_LIMIT_SEARCHES - int n)))"
  by (simp add: check_rate_limit_def Let_def)

lemma record_all_same:
  "foldl (\<lambda>tr t. record_search t uid tr) tr stamps uid = tr uid @ stamps"
  by (induction stamps arbitrary: tr) (simp_all add: record_search_def)

lemma record_all_other:
  "u \<noteq> uid \<Longrightarrow> foldl (\<lambda>tr t. record_search t uid tr) tr stamps u = tr u"
  by (induction stamps arbitrary: tr) (simp_all add: record_search_def)

text \<open>
  C3. A check keeps exactly the instants \<open>ts\<close> of the identity with
  \<open>now - ts < RATE_LIMIT_WINDOW\<close> (so every instant older than the window is gone, and
  so is one exactly a window old), leaves the other identities alone, allows the request
  exactly when fewer than \<open>RATE_LIMIT_SEARCHES\<close> instants survive, and reports
  \<open>max 0 (limit - survivors)\<close> as remaining. After \<open>RATE_LIMIT_SEARCHES\<close> recorded
  requests inside the window the check denies; after fewer, from an empty record, it
  allows; once every recorded instant is a window old it allows again, with the whole
  quota remaining.
\<close>

theorem check_rate_limit_sliding_window:
  "(case check_rate_limit now uid tr of
      ((allowed, remaining), tr') \<Rightarrow>
        tr' uid = filter (\<lambda>ts. now - ts < RATE_LIMIT_WINDOW) (tr uid)
        \<and> (\<forall>ts \<in> set (tr uid). ts < now - RATE_LIMIT_WINDOW \<longrightarrow> ts \<notin> set (tr' uid))
        \<and> (\<forall>u. u \<noteq> uid \<longrightarrow> tr' u = tr u)
        \<and> (allowed \<longleftrightarrow> length (tr' uid) < RATE_LIMIT_SEARCHES)
        \<and> remaining = max 0 (int RATE_LIMIT_SEARCHES - int (length (tr' uid))))
   \<and> (length stamps = RATE_LIMIT_SEARCHES \<and> (\<forall>t \<in> set stamps. now - t < RATE_LIMIT_WINDOW)
        \<longrightarrow> fst (check_rate_limit now uid (foldl (\<lambda>tr t. record_search t uid tr) tr stamps)) = (False, 0))
   \<and> (tr uid = [] \<and> length stamps < RATE_LIMIT_SEARCHES
        \<longrightarrow> fst (fst (check_rate_limit now uid (foldl (\<lambda>tr t. record_search t uid tr) tr stamps))))
   \<and> ((\<forall>t \<in> set (tr uid). RATE_LIMIT_WINDOW \<le> now - t)
        \<longrightarrow> fst (check_rate_limit now uid tr) = (True, int RATE_LIMIT_SEARCHES))"
proof (intro conjI impI)
  show "case check_rate_limit now uid tr of
      ((allowed, remaining), tr') \<Rightarrow>
        tr' uid = filter (\<lambda>ts. now - ts < RATE_LIMIT_WINDOW) (tr uid)
        \<and> (\<forall>ts \<in> set (tr uid). ts < now - RATE_LIMIT_WINDOW \<longrightarrow> ts \<notin> set (tr' uid))
        \<and> (\<forall>u. u \<noteq> uid \<longrightarrow> tr' u = tr u)
        \<and> (allowed \<longleftrightarrow> length (tr' uid) < RATE_LIMIT_SEARCHES)
        \<and> remaining = max 0 (int RATE_LIMIT_SEARCHES - int (length (tr' uid)))"
    by (auto simp: check_rate_limit_def Let_def)
next
  assume h: "length stamps = RATE_LIMIT_SEARCHES \<and> (\<forall>t \<in> set stamps. now - t < RATE_LIMIT_WINDOW)"
  then have "filter (\<lambda>ts. now - ts < RATE_LIMIT_WINDOW) stamps = stamps"
    by (simp add: filter_id_conv)
  then have "RATE_LIMIT_SEARCHES \<le> length (filter (\<lambda>ts. now - ts < RATE_LIMIT_WINDOW) (tr uid @ stamps))"
    using h by simp
  then show "fst (check_rate_limit now uid (foldl (\<lambda>tr t. record_search t uid tr) tr stamps)) = (False, 0)"
    by (simp add: check_rate_limit_decision record_all_same Let_def del: filter_append)
next
  assume h: "tr uid = [] \<and> length stamps < RATE_LIMIT_SEARCHES"
  have "length (filter (\<lambda>ts. now - ts < RATE_LIMIT_WINDOW) stamps) \<le> length stamps"
    by (rule length_filter_le)
  with h have "length (filter (\<lambda>ts. now - ts < RATE_LIMIT_WINDOW) stamps) < RATE_LIMIT_SEARCHES"
    by linarith
  then show "fst (fst (check_rate_limit now uid (foldl (\<lambda>tr t. record_search t uid tr) tr stamps)))"
    using h by (simp add: check_rate_limit_decision record_all_same Let_def)
next
  assume h: "\<forall>t \<in> set (tr uid). RATE_LIMIT_WINDOW \<le> now - t"
  then have "filter (\<lambda>ts. now - ts < RATE_LIMIT_WINDOW) (tr uid) = []"
    by (auto simp: filter_empty_conv)
  then show "fst (check_rate_limit now uid tr) = (True, int RATE_LIMIT_SEARCHES)"
    by (simp add: check_rate_limit_decision Let_def RATE_LIMIT_SEARCHES_def)
qed

theorem check_rate_limit_sliding_window_witness:
  "length (map real [0..<50]) = RATE_LIMIT_SEARCHES
   \<and> list_all (\<lambda>t. 100 - t < RATE_LIMIT_WINDOW) (map real [0..<50])
   \<and> fst (check_rate_limit 100 ''u'' (foldl (\<lambda>tr t. record_search t ''u'' tr) (\<lambda>u. []) (map real [0..<50]))) = (False, 0)
   \<and> list_all (\<lambda>t. RATE_LIMIT_WINDOW \<le> 3700 - t)
        (foldl (\<lambda>tr t. record_search t ''u'' tr) (\<lambda>u. []) (map real [0..<50]) ''u'')
   \<and> fst (check_rate_limit 3700 ''u'' (foldl (\<lambda>tr t. record_search t ''u'' tr) (\<lambda>u. []) (map real [0..<50]))) = (True, 50)"
proof -
  have a: "length (map real [0..<50]) = RATE_LIMIT_SEARCHES"
    by (simp add: RATE_LIMIT_SEARCHES_def)
  have b: "\<forall>t \<in> set (map real [0..<50]). 100 - t < RATE_LIMIT_WINDOW"
    by (auto simp: RATE_LIMIT_WINDOW_def)
  have c: "\<forall>t \<in> set (foldl (\<lambda>tr t. record_search t ''u'' tr) (\<lambda>u. []) (map real [0..<50]) ''u''). RATE_LIMIT_WINDOW \<le> 3700 - t"
    by (auto simp: record_all_same RATE_LIMIT_WINDOW_def)
  show ?thesis
    using a b c
      check_rate_limit_sliding_window [where now = 100 and uid = "''u''" and tr = "\<lambda>u. []" and stamps = "map real [0..<50]"]
      check_rate_limit_sliding_window [where now = 3700 and uid = "''u''" and stamps = "[]"
        and tr = "foldl (\<lambda>tr t. record_search t ''u'' tr) (\<lambda>u. []) (map real [0..<50])"]
    by (simp add: RATE_LIMIT_SEARCHES_def list_all_iff)
qed

subsection \<open>Search history\<close>

lemma py_slice_to_nonneg: "0 \<le> n \<Longrightarrow> py_slice_to n xs = take (nat n) xs"
  by (simp add: py_slice_to_def)

lemma take_Cons_take: "take n (x # take n xs) = take n (x # xs)"
  by (cases n) simp_all

lemma add_to_history_take:
  "0 \<le> M \<Longrightarrow> add_to_history M q m t h = take (nat M) (\<lparr>he_query = q, he_mode = m, he_timestamp = t\<rparr> # h)"
  by (simp add: add_to_history_def py_slice_to_nonneg)

lemma history_after_inserts:
  assumes "0 \<le> M"
  shows "foldl (\<lambda>h (q, m, t). add_to_history M q m t h) (take (nat M) h) es =
         take (nat M) (rev (map (\<lambda>(q, m, t). \<lparr>he_query = q, he_mode = m, he_timestamp = t\<rparr>) es) @ h)"
proof (induction es arbitrary: h)
  case Nil
  show ?case by simp
next
  case (Cons e es)
  obtain q m t where e: "e = (q, m, t)" by (cases e)
  have "foldl (\<lambda>h (q, m, t). add_to_history M q m t h) (take (nat M) h) (e # es) =
        foldl (\<lambda>h (q, m, t). add_to_history M q m t h)
          (take (nat M) (\<lparr>he_query = q, he_mode = m, he_timestamp = t\<rparr> # h)) es"
    using assms by (simp add: e add_to_history_take take_Cons_take)
  also have "\<dots> = take (nat M) (rev (map (\<lambda>(q, m, t). \<lparr>he_query = q, he_mode = m, he_timestamp = t\<rparr>) es)
                      @ \<lparr>he_query = q, he_mode = m, he_timestamp = t\<rparr> # h)"
    by (rule Cons.IH)
  finally show ?case by (simp add: e)
qed

text \<open>
  C5. For a history cap \<open>MAX_HISTORY \<ge> 0\<close>: whatever the list was, after an insert it
  is the new entry followed by the old entries in their order, cut to \<open>MAX_HISTORY\<close>
  entries, so it never holds more than that. Inserting a sequence of entries into the
  empty history leaves the last \<open>MAX_HISTORY\<close> of them, newest first; with
  \<open>MAX_HISTORY + 5\<close> insertions exactly \<open>MAX_HISTORY\<close> entries remain, the reverse
  of the sequence without its first five.
\<close>

theorem add_to_history_bounded_newest_first:
  "0 \<le> MAX_HISTORY \<Longrightarrow>
     length (add_to_history MAX_HISTORY q m t h) \<le> nat MAX_HISTORY
   \<and> add_to_history MAX_HISTORY q m t h =
       take (nat MAX_HISTORY) (\<lparr>he_query = q, he_mode = m, he_timestamp = t\<rparr> # h)
   \<and> foldl (\<lambda>h (q, m, t). add_to_history MAX_HISTORY q m t h) [] es =
       take (nat MAX_HISTORY) (rev (map (\<lambda>(q, m, t). \<lparr>he_query = q, he_mode = m, he_timestamp = t\<rparr>) es))
   \<and> (length es = nat MAX_HISTORY + 5 \<longrightarrow>
         length (foldl (\<lambda>h (q, m, t). add_to_history MAX_HISTORY q m t h) [] es) = nat MAX_HISTORY
       \<and> foldl (\<lambda>h (q, m, t). add_to_history MAX_HISTORY q m t h) [] es =
           rev (map (\<lambda>(q, m, t). \<lparr>he_query = q, he_mode = m, he_timestamp = t\<rparr>) (drop 5 es)))"
proof -
  assume M: "0 \<le> MAX_HISTORY"
  let ?mk = "\<lambda>(q, m, t). \<lparr>he_query = q, he_mode = m, he_timestamp = t\<rparr>"
  have all: "foldl (\<lambda>h (q, m, t). add_to_history MAX_HISTORY q m t h) [] es =
             take (nat MAX_HISTORY) (rev (map ?mk es))"
    using history_after_inserts [OF M, of "[]" es] by simp
  have five: "length es = nat MAX_HISTORY + 5 \<Longrightarrow>
              take (nat MAX_HISTORY) (rev (map ?mk es)) = rev (map ?mk (drop 5 es))"
    by (simp add: take_rev drop_map)
  show ?thesis
    using M all five by (simp add: add_to_history_take)
qed

theorem add_to_history_bounded_newest_first_witness:
  "(0::int) \<le> 2
   \<and> length [(''a'', ''groq'', ''1''), (''b'', ''groq'', ''2''), (''c'', ''local'', ''3''), (''d'', ''groq'', ''4''),
              (''e'', ''openai'', ''5''), (''f'', ''groq'', ''6''), (''g'', ''local'', ''7'')] = nat 2 + 5
   \<and> foldl (\<lambda>h (q, m, t). add_to_history 2 q m t h) []
        [(''a'', ''groq'', ''1''), (''b'', ''groq'', ''2''), (''c'', ''local'', ''3''), (''d'', ''groq'', ''4''),
         (''e'', ''openai'', ''5''), (''f'', ''groq'', ''6''), (''g'', ''local'', ''7'')]
      = [\<lparr>he_query = ''g'', he_mode = ''local'', he_timestamp = ''7''\<rparr>,
         \<lparr>he_query = ''f'', he_mode = ''groq'', he_timestamp = ''6''\<rparr>]"
  using add_to_history_bounded_newest_first [where MAX_HISTORY = 2 and h = "[]" and q = "''a''" and m = "''groq''" and t = "''1''"
      and es = "[(''a'', ''groq'', ''1''), (''b'', ''groq'', ''2''), (''c'', ''local'', ''3''), (''d'', ''groq'', ''4''),
         (''e'', ''openai'', ''5''), (''f'', ''groq'', ''6''), (''g'', ''local'', ''7'')]"]
  by (simp add: add_to_history_def py_slice_to_def)

subsection \<open>Backend dispatch\<close>

lemma MODEL_CONFIGS_dom: "dom (MODEL_CONFIGS environ) = {''groq'', ''openai'', ''local''}"
  by (auto simp: MODEL_CONFIGS_def split: if_splits)

lemma generate_answer_refines:
  "generate_answer environ sv query sources mode =
   spec_run_backend (spec_select_backend mode) environ sv query sources"
  by (simp add: generate_answer_def spec_select_backend_def)

text \<open>
  C7. \<^verbatim>\<open>generate_answer\<close> runs the one strategy that the mode selects among the
  three: the mode \<^verbatim>\<open>groq\<close> the primary hosted one, \<^verbatim>\<open>openai\<close> the secondary hosted
  one, \<^verbatim>\<open>local\<close> the local one; a mode outside the keys of \<^verbatim>\<open>MODEL_CONFIGS\<close> runs
  the primary hosted one.
\<close>

theorem generate_answer_dispatch:
  "generate_answer environ sv query sources mode =
     spec_run_backend (spec_select_backend mode) environ sv query sources
   \<and> generate_answer environ sv query sources ''groq'' = generate_answer_groq environ (groq_chat sv) query sources
   \<and> generate_answer environ sv query sources ''openai'' = generate_answer_openai environ (openai_chat sv) query sources
   \<and> generate_answer environ sv query sources ''local'' = generate_answer_local environ (ollama_post sv) query sources
   \<and> (mode \<notin> dom (MODEL_CONFIGS environ) \<longrightarrow>
        spec_select_backend mode = PrimaryHosted
      \<and> generate_answer environ sv query sources mode = generate_answer_groq environ (groq_chat sv) query sources)"
  by (simp add: generate_answer_def spec_select_backend_def MODEL_CONFIGS_dom)

theorem generate_answer_dispatch_witness:
  "''mistral'' \<notin> dom (MODEL_CONFIGS [''GROQ_API_KEY'' \<mapsto> ''k''])
   \<and> generate_answer [''GROQ_API_KEY'' \<mapsto> ''k''] offline_services ''q'' [] ''mistral'' =
       ''Error generating answer with Groq: connection refused\<newline>\<newline>Please check your API key or try a different model.''"
  using generate_answer_dispatch [where mode = "''mistral''" and environ = "[''GROQ_API_KEY'' \<mapsto> ''k'']"
      and sv = offline_services and query = "''q''" and sources = "[]"]
  by (simp add: MODEL_CONFIGS_dom generate_answer_groq_def API_KEYS_def offline_services_def unreachable_def)

subsection \<open>The handler class\<close>

text \<open>
  C10. When the mode of an \<^verbatim>\<open>LLMHandler\<close> is none of \<^verbatim>\<open>local\<close>, \<^verbatim>\<open>groq\<close> and
  \<^verbatim>\<open>openai\<close>, \<^verbatim>\<open>generate\<close> returns \<^verbatim>\<open>None\<close> for every prompt, context and
  token ceiling: no answer and no error text. The constructor accepts such a mode from
  the environment, keeps it, and picks the model as it does for \<^verbatim>\<open>local\<close>.
\<close>

theorem generate_unknown_mode_returns_None:
  "(self_mode self \<notin> {''local'', ''groq'', ''openai''} \<longrightarrow>
      generate self environ run groq openai prompt ctx max_tokens = Inr None)
   \<and> (environ ''LLM_MODE'' = Some m \<and> m \<notin> {''local'', ''groq'', ''openai''} \<longrightarrow>
        LLMHandler_init environ Groq OpenAI =
          Inr \<lparr>self_mode = m, self_model = dict_get environ ''LOCAL_MODEL'' ''llama3.2:3b''\<rparr>
      \<and> (\<forall>h. LLMHandler_init environ Groq OpenAI = Inr h \<longrightarrow>
             generate h environ run groq openai prompt ctx max_tokens = Inr None))"
  by (auto simp: generate_def LLMHandler_init_def dict_get_def Let_def)

theorem generate_unknown_mode_returns_None_witness:
  "[''LLM_MODE'' \<mapsto> ''ollama''] ''LLM_MODE'' = Some ''ollama''
   \<and> ''ollama'' \<notin> {''local'', ''groq'', ''openai''}
   \<and> LLMHandler_init [''LLM_MODE'' \<mapsto> ''ollama''] (\<lambda>k. Inr ()) (\<lambda>k. Inr ()) =
        Inr \<lparr>self_mode = ''ollama'', self_model = ''llama3.2:3b''\<rparr>
   \<and> generate \<lparr>self_mode = ''ollama'', self_model = ''llama3.2:3b''\<rparr> [''LLM_MODE'' \<mapsto> ''ollama'']
        (\<lambda>argv. Inl unreachable) (groq_chat offline_services) (openai_chat offline_services) ''hello'' [] 500 = Inr None"
  using generate_unknown_mode_returns_None [where environ = "[''LLM_MODE'' \<mapsto> ''ollama'']" and m = "''ollama''"
      and Groq = "\<lambda>k. Inr ()" and OpenAI = "\<lambda>k. Inr ()" and self = "\<lparr>self_mode = ''ollama'', self_model = ''llama3.2:3b''\<rparr>"
      and run = "\<lambda>argv. Inl unreachable" and groq = "groq_chat offline_services" and openai = "openai_chat offline_services"
      and prompt = "''hello''" and ctx = "[]" and max_tokens = 500]
  by (simp add: dict_get_def)

subsection \<open>Mode switching\<close>

lemma get_user_id_keeps_mode:
  "get_current_mode (snd (get_user_id token session)) = get_current_mode session"
  by (simp add: get_user_id_def get_current_mode_def dict_get_def split: option.splits)

lemma search_answer_mode:
  "search environ M sv req session st = ((ResultsPage q a srcs info rem, code), s', st') \<Longrightarrow>
     a = generate_answer environ sv q srcs (get_current_mode session) \<and> mi_mode info = get_current_mode session"
  by (auto simp: search_def Let_def get_model_info_def split: if_splits prod.splits sum.splits)

lemma search_route_answer_mode:
  assumes "search_route environ M sv req session st = ((ResultsPage q a srcs info rem, code), s', st')"
  shows "a = generate_answer environ sv q srcs (get_current_mode session) \<and> mi_mode info = get_current_mode session"
proof -
  obtain u s1 where g: "get_user_id (fresh_token req) session = (u, s1)"
    by (cases "get_user_id (fresh_token req) session")
  have m: "get_current_mode s1 = get_current_mode session"
    using get_user_id_keeps_mode [of "fresh_token req" session] g by simp
  obtain st1 where "search environ M sv req s1 st1 = ((ResultsPage q a srcs info rem, code), s', st')"
    using assms g
    by (auto simp: search_route_def rate_limit_decorator_def Let_def split: prod.splits if_splits)
  then show ?thesis
    using search_answer_mode m by metis
qed

lemma switch_mode_rejects:
  "dict_get form_data ''mode'' ''groq'' \<notin> dom (MODEL_CONFIGS environ) \<Longrightarrow>
     switch_mode environ form_data session =
       ((SwitchFailure (''Invalid mode: '' @ dict_get form_data ''mode'' ''groq''), 400), session)"
  by (auto simp: switch_mode_def Let_def split: option.splits)

lemma switch_mode_accepts:
  "MODEL_CONFIGS environ (dict_get form_data ''mode'' ''groq'') = Some config \<Longrightarrow>
     switch_mode environ form_data session =
       ((SwitchSuccess (dict_get form_data ''mode'' ''groq'') (backend config) (display_name config), 200),
        session(''ai_mode'' \<mapsto> dict_get form_data ''mode'' ''groq''))"
  by (simp add: switch_mode_def Let_def)

lemma search_keeps_mode:
  "get_current_mode (fst (snd (search environ M sv req session st))) = get_current_mode session"
  using get_user_id_keeps_mode [of "fresh_token req" session]
  by (auto simp: search_def Let_def split: if_splits prod.splits sum.splits)

lemma search_route_keeps_mode:
  "get_current_mode (fst (snd (search_route environ M sv req session st))) = get_current_mode session"
proof -
  obtain u s1 where g: "get_user_id (fresh_token req) session = (u, s1)"
    by (cases "get_user_id (fresh_token req) session")
  have m: "get_current_mode s1 = get_current_mode session"
    using get_user_id_keeps_mode [of "fresh_token req" session] g by simp
  show ?thesis
    using g m search_keeps_mode [of environ M sv req s1]
    by (auto simp: search_route_def rate_limit_decorator_def Let_def split: prod.splits if_splits)
qed

lemma session_after_keeps_mode:
  "get_current_mode (session_after environ M session searches) = get_current_mode session"
proof (induction searches arbitrary: session)
  case Nil
  show ?case by simp
next
  case (Cons x xs)
  obtain sv req st where x: "x = (sv, req, st)" by (cases x)
  show ?case
    by (simp add: x Cons.IH search_route_keeps_mode)
qed

text \<open>
  C6. A mode-switch request whose mode is not a key of \<^verbatim>\<open>MODEL_CONFIGS\<close> answers
  with the failure body and status 400 and leaves the session as it was. A request with
  a recognised mode answers with success and stores the mode in the session. A search
  never changes the mode of the session it runs in, so after any number of searches of
  that session, whatever the process state each of them meets, the mode read from the
  session is still the new one, and every search of the session that renders results
  carries the answer of the backend selected by the new mode and hands back a session
  with that mode.
\<close>

theorem switch_mode_session:
  "(dict_get form_data ''mode'' ''groq'' \<notin> dom (MODEL_CONFIGS environ) \<longrightarrow>
      switch_mode environ form_data session =
        ((SwitchFailure (''Invalid mode: '' @ dict_get form_data ''mode'' ''groq''), 400), session))
   \<and> (dict_get form_data ''mode'' ''groq'' \<in> dom (MODEL_CONFIGS environ) \<longrightarrow>
        (\<exists>b d. fst (switch_mode environ form_data session) =
                  (SwitchSuccess (dict_get form_data ''mode'' ''groq'') b d, 200))
      \<and> snd (switch_mode environ form_data session) = session(''ai_mode'' \<mapsto> dict_get form_data ''mode'' ''groq'')
      \<and> get_current_mode (snd (switch_mode environ form_data session)) = dict_get form_data ''mode'' ''groq''
      \<and> (\<forall>M sv req st q a srcs info rem code s' st'.
            search_route environ M sv req (snd (switch_mode environ form_data session)) st =
              ((ResultsPage q a srcs info rem, code), s', st') \<longrightarrow>
            a = spec_run_backend (spec_select_backend (dict_get form_data ''mode'' ''groq'')) environ sv q srcs
            \<and> mi_mode info = dict_get form_data ''mode'' ''groq'')
      \<and> (\<forall>M searches.
            get_current_mode (session_after environ M (snd (switch_mode environ form_data session)) searches) =
              dict_get form_data ''mode'' ''groq'')
      \<and> (\<forall>M searches sv req st q a srcs info rem code s' st'.
            search_route environ M sv req
              (session_after environ M (snd (switch_mode environ form_data session)) searches) st =
              ((ResultsPage q a srcs info rem, code), s', st') \<longrightarrow>
            a = spec_run_backend (spec_select_backend (dict_get form_data ''mode'' ''groq'')) environ sv q srcs
            \<and> mi_mode info = dict_get form_data ''mode'' ''groq''
            \<and> get_current_mode s' = dict_get form_data ''mode'' ''groq''))
   \<and> get_current_mode (fst (snd (search_route environ MAX_HISTORY sv' req' session st0))) = get_current_mode session"
proof (intro conjI impI)
  assume "dict_get form_data ''mode'' ''groq'' \<notin> dom (MODEL_CONFIGS environ)"
  then show "switch_mode environ form_data session =
        ((SwitchFailure (''Invalid mode: '' @ dict_get form_data ''mode'' ''groq''), 400), session)"
    by (rule switch_mode_rejects)
next
  show "get_current_mode (fst (snd (search_route environ MAX_HISTORY sv' req' session st0))) = get_current_mode session"
    by (rule search_route_keeps_mode)
next
  assume "dict_get form_data ''mode'' ''groq'' \<in> dom (MODEL_CONFIGS environ)"
  then obtain config where c: "MODEL_CONFIGS environ (dict_get form_data ''mode'' ''groq'') = Some config"
    by auto
  note sw = switch_mode_accepts [OF c, of session]
  show "\<exists>b d. fst (switch_mode environ form_data session) =
                  (SwitchSuccess (dict_get form_data ''mode'' ''groq'') b d, 200)"
    by (simp add: sw)
  show "snd (switch_mode environ form_data session) = session(''ai_mode'' \<mapsto> dict_get form_data ''mode'' ''groq'')"
    by (simp add: sw)
  show cur: "get_current_mode (snd (switch_mode environ form_data session)) = dict_get form_data ''mode'' ''groq''"
    by (simp add: sw get_current_mode_def dict_get_def)
  show "\<forall>M sv req st q a srcs info rem code s' st'.
            search_route environ M sv req (snd (switch_mode environ form_data session)) st =
              ((ResultsPage q a srcs info rem, code), s', st') \<longrightarrow>
            a = spec_run_backend (spec_select_backend (dict_get form_data ''mode'' ''groq'')) environ sv q srcs
            \<and> mi_mode info = dict_get form_data ''mode'' ''groq''"
    using search_route_answer_mode cur generate_answer_refines by metis
  show later: "\<forall>M searches.
            get_current_mode (session_after environ M (snd (switch_mode environ form_data session)) searches) =
              dict_get form_data ''mode'' ''groq''"
    by (simp add: session_after_keeps_mode cur)
  show "\<forall>M searches sv req st q a srcs info rem code s' st'.
            search_route environ M sv req
              (session_after environ M (snd (switch_mode environ form_data session)) searches) st =
              ((ResultsPage q a srcs info rem, code), s', st') \<longrightarrow>
            a = spec_run_backend (spec_select_backend (dict_get form_data ''mode'' ''groq'')) environ sv q srcs
            \<and> mi_mode info = dict_get form_data ''mode'' ''groq''
            \<and> get_current_mode s' = dict_get form_data ''mode'' ''groq''"
  proof (intro allI impI)
    fix M searches sv req st q a srcs info rem code s' st'
    let ?s = "session_after environ M (snd (switch_mode environ form_data session)) searches"
    assume r: "search_route environ M sv req ?s st = ((ResultsPage q a srcs info rem, code), s', st')"
    have m: "get_current_mode ?s = dict_get form_data ''mode'' ''groq''"
      using later by blast
    have "get_current_mode (fst (snd (search_route environ M sv req ?s st))) = get_current_mode ?s"
      by (rule search_route_keeps_mode)
    then have k: "get_current_mode s' = dict_get form_data ''mode'' ''groq''"
      using r m by simp
    have "a = generate_answer environ sv q srcs (get_current_mode ?s) \<and> mi_mode info = get_current_mode ?s"
      using r by (rule search_route_answer_mode)
    then show "a = spec_run_backend (spec_select_backend (dict_get form_data ''mode'' ''groq'')) environ sv q srcs
            \<and> mi_mode info = dict_get form_data ''mode'' ''groq''
            \<and> get_current_mode s' = dict_get form_data ''mode'' ''groq''"
      using m k by (simp add: generate_answer_refines)
  qed
qed

text \<open>The definitions a run of the pipeline on concrete inputs unfolds.\<close>

lemmas pipeline_defs =
  search_route_def rate_limit_decorator_def search_def get_user_id_def check_rate_limit_def
  record_search_def example_request_def fresh_state_def dict_get_def strip_def isspace_def Let_def
  get_current_mode_def get_model_info_def MODEL_CONFIGS_def local_config_def groq_config_def openai_config_def
  cache_result_def cache_miss_def search_web_def API_KEYS_def offline_services_def generate_answer_def
  generate_answer_local_def generate_answer_groq_def generate_answer_openai_def local_failure_def
  unreachable_def add_to_history_def py_slice_to_def RATE_LIMIT_SEARCHES_def RATE_LIMIT_WINDOW_def
  switch_mode_def

theorem switch_mode_session_witness:
  "dict_get [''mode'' \<mapsto> ''mistral''] ''mode'' ''groq'' \<notin> dom (MODEL_CONFIGS Map.empty)
   \<and> switch_mode Map.empty [''mode'' \<mapsto> ''mistral''] [''ai_mode'' \<mapsto> ''openai''] =
       ((SwitchFailure ''Invalid mode: mistral'', 400), [''ai_mode'' \<mapsto> ''openai''])
   \<and> dict_get [''mode'' \<mapsto> ''local''] ''mode'' ''groq'' \<in> dom (MODEL_CONFIGS Map.empty)
   \<and> fst (switch_mode Map.empty [''mode'' \<mapsto> ''local''] [''ai_mode'' \<mapsto> ''openai'']) =
       (SwitchSuccess ''local'' ''Ollama'' ''llama2'', 200)
   \<and> get_current_mode (snd (switch_mode Map.empty [''mode'' \<mapsto> ''local''] [''ai_mode'' \<mapsto> ''openai''])) = ''local''
   \<and> fst (fst (search_route Map.empty 10 offline_services (example_request ''hi'')
                (snd (switch_mode Map.empty [''mode'' \<mapsto> ''local''] [''ai_mode'' \<mapsto> ''openai''])) fresh_state)) =
       ResultsPage ''hi''
         ''Error: Cannot connect to Ollama. Make sure Ollama is running locally (http://localhost:11434)''
         [\<lparr>title = ''API Key Not Configured'',
           snippet = ''Please add SERPER_API_KEY to your .env file. Get one at https://serper.dev'',
           url = ''https://serper.dev'', source = ''Error''\<rparr>]
         \<lparr>mi_backend = ''Ollama'', mi_model = ''llama2'', mi_mode = ''local'', mi_status = ''active''\<rparr>
         49
   \<and> session_after Map.empty 10 (snd (switch_mode Map.empty [''mode'' \<mapsto> ''local''] [''ai_mode'' \<mapsto> ''openai'']))
        [(offline_services, example_request ''hi'', fresh_state)] =
       [''ai_mode'' \<mapsto> ''local'', ''user_id'' \<mapsto> ''00112233445566778899aabbccddeeff'']
   \<and> search_route Map.empty 10 offline_services (example_request ''again'')
        (session_after Map.empty 10 (snd (switch_mode Map.empty [''mode'' \<mapsto> ''local''] [''ai_mode'' \<mapsto> ''openai'']))
           [(offline_services, example_request ''hi'', fresh_state)])
        fresh_state =
       ((ResultsPage ''again''
          ''Error: Cannot connect to Ollama. Make sure Ollama is running locally (http://localhost:11434)''
          [\<lparr>title = ''API Key Not Configured'',
            snippet = ''Please add SERPER_API_KEY to your .env file. Get one at https://serper.dev'',
            url = ''https://serper.dev'', source = ''Error''\<rparr>]
          \<lparr>mi_backend = ''Ollama'', mi_model = ''llama2'', mi_mode = ''local'', mi_status = ''active''\<rparr>
          49, 200),
        [''ai_mode'' \<mapsto> ''local'', ''user_id'' \<mapsto> ''00112233445566778899aabbccddeeff''],
        \<lparr>rate_limit_tracker = (\<lambda>u. [])(''00112233445566778899aabbccddeeff'' := [2]),
         search_cache = [''search_web:('' @ py_repr offline_services ''again'' @ '',):{}'' \<mapsto>
           ([\<lparr>title = ''API Key Not Configured'',
              snippet = ''Please add SERPER_API_KEY to your .env file. Get one at https://serper.dev'',
              url = ''https://serper.dev'', source = ''Error''\<rparr>], 5)],
         search_history = [\<lparr>he_query = ''again'', he_mode = ''local'', he_timestamp = ''2024-01-01 00:00:00''\<rparr>]\<rparr>)"
  using switch_mode_session [where environ = Map.empty and form_data = "[''mode'' \<mapsto> ''mistral'']"
          and session = "[''ai_mode'' \<mapsto> ''openai'']"]
        switch_mode_session [where environ = Map.empty and form_data = "[''mode'' \<mapsto> ''local'']"
          and session = "[''ai_mode'' \<mapsto> ''openai'']"]
  by (simp add: pipeline_defs)

subsection \<open>Blank queries\<close>

text \<open>
  C1, at a concrete request: a query of three spaces on a fresh process is answered with
  the validation error and status 400, and the instant of the request has been appended
  to the record of its identity, which was empty before. The decorator checks and
  records before the handler looks at the query.
\<close>

theorem blank_query_consumes_slot:
  "fst (search_route Map.empty 10 offline_services (example_request ''   '') Map.empty fresh_state) =
     (ErrorPage ''Please enter a search query'', 400)
   \<and> rate_limit_tracker fresh_state ''00112233445566778899aabbccddeeff'' = []
   \<and> rate_limit_tracker (snd (snd (search_route Map.empty 10 offline_services (example_request ''   '') Map.empty fresh_state)))
        ''00112233445566778899aabbccddeeff'' = [2]"
  by (simp add: pipeline_defs)

text \<open>
  C1, as the code has it. A request whose query is empty or only white space never
  changes the history or the cache, and passes the rate-limit check first. If the check
  allows it, the instant of the request is appended to the surviving instants of its
  identity and the answer is the validation error with status 400; if the check denies
  it, the answer is the rate-limit error with status 429 and nothing is appended.
\<close>

theorem blank_query_rejected:
  "strip (dict_get (form req) ''query'' []) = [] \<Longrightarrow>
   get_user_id (fresh_token req) session = (user_id, session1) \<Longrightarrow>
   search_route environ MAX_HISTORY sv req session st = (resp, session', st') \<Longrightarrow>
     session' = session1
     \<and> search_history st' = search_history st
     \<and> search_cache st' = search_cache st
     \<and> (\<forall>u. u \<noteq> user_id \<longrightarrow> rate_limit_tracker st' u = rate_limit_tracker st u)
     \<and> (fst (fst (check_rate_limit (t_check req) user_id (rate_limit_tracker st))) \<longrightarrow>
          resp = (ErrorPage ''Please enter a search query'', 400)
          \<and> rate_limit_tracker st' user_id =
              filter (\<lambda>ts. t_check req - ts < RATE_LIMIT_WINDOW) (rate_limit_tracker st user_id) @ [t_record req])
     \<and> (\<not> fst (fst (check_rate_limit (t_check req) user_id (rate_limit_tracker st))) \<longrightarrow>
          resp = (ErrorPage ''Rate limit exceeded. Please try again in an hour.'', 429)
          \<and> rate_limit_tracker st' user_id =
              filter (\<lambda>ts. t_check req - ts < RATE_LIMIT_WINDOW) (rate_limit_tracker st user_id))"
  by (auto simp: search_route_def rate_limit_decorator_def search_def check_rate_limit_def record_search_def Let_def
      split: if_splits)

theorem blank_query_rejected_witness:
  "strip (dict_get (form (example_request [CHR 0x09, CHR '' ''])) ''query'' []) = []
   \<and> get_user_id (fresh_token (example_request [CHR 0x09, CHR '' ''])) [''user_id'' \<mapsto> ''alice''] =
        (''alice'', [''user_id'' \<mapsto> ''alice''])
   \<and> fst (fst (check_rate_limit (t_check (example_request [CHR 0x09, CHR '' ''])) ''alice'' (rate_limit_tracker fresh_state)))
   \<and> search_route Map.empty 10 offline_services (example_request [CHR 0x09, CHR '' '']) [''user_id'' \<mapsto> ''alice''] fresh_state =
        ((ErrorPage ''Please enter a search query'', 400), [''user_id'' \<mapsto> ''alice''],
         fresh_state\<lparr>rate_limit_tracker := (rate_limit_tracker fresh_state)(''alice'' := [2])\<rparr>)"
  using blank_query_rejected [where req = "example_request [CHR 0x09, CHR '' '']" and session = "[''user_id'' \<mapsto> ''alice'']"
      and user_id = "''alice''" and ?session1.0 = "[''user_id'' \<mapsto> ''alice'']" and environ = Map.empty and MAX_HISTORY = 10
      and sv = offline_services and st = fresh_state
      and resp = "(ErrorPage ''Please enter a search query'', 400)" and session' = "[''user_id'' \<mapsto> ''alice'']"
      and st' = "fresh_state\<lparr>rate_limit_tracker := (rate_limit_tracker fresh_state)(''alice'' := [2])\<rparr>"]
  by (simp add: pipeline_defs)

subsection \<open>Search providers\<close>






text \<open>
  C9, at a concrete query: without a key, and with the secondary provider unreachable,
  \<^verbatim>\<open>WebSearch.search\<close> produces the empty sequence.
\<close>

theorem search_duckduckgo_failure_is_empty:
  "WebSearch_search \<lparr>serper_key = None\<rparr> (serper_post offline_services) (\<lambda>q n. Inl unreachable) ''capital of France'' 5 = Inr []"
  by (simp add: WebSearch_search_def search_duckduckgo_def)

lemma py_slice_to_length: "0 \<le> n \<Longrightarrow> int (length (py_slice_to n xs)) \<le> n"
  by (simp add: py_slice_to_def)

lemma comprehension_length: "comprehension f xs = Inr ys \<Longrightarrow> length ys = length xs"
  by (induction xs arbitrary: ys) (auto split: sum.splits)

lemma search_web_length:
  "search_web environ post query = Inr sources \<Longrightarrow> 1 \<le> length sources \<and> length sources \<le> 5"
  by (auto simp: search_web_def Let_def py_slice_to_def Suc_le_eq split: if_splits sum.splits)

lemma search_web_raises:
  "search_web environ post query = Inl e \<Longrightarrow>
     \<not> is_RequestException e \<and> post (API_KEYS environ ''serper'') query 5 = Inl e"
  by (cases e) (auto simp: search_web_def Let_def split: if_splits sum.splits)

lemma search_serper_length:
  "0 \<le> max_results \<Longrightarrow> search_serper self post query max_results = Inr rs \<Longrightarrow> int (length rs) \<le> max_results"
  using py_slice_to_length [of max_results "organic_items d" for d]
  by (auto simp: search_serper_def Let_def split: sum.splits option.splits if_splits)

text \<open>
  C9, as the code has it. \<^verbatim>\<open>search_web\<close> of the application returns between one
  and five entries whenever it returns (a placeholder or diagnostic entry when there is
  no hit), and it raises only an exception of the provider call that is not a
  \<^verbatim>\<open>RequestException\<close>. In \<^verbatim>\<open>WebSearch.search\<close> a primary result that is used has
  between one and \<open>max_results\<close> entries, for \<open>max_results \<ge> 0\<close>; a secondary
  result has one entry for each hit the provider returned, possibly none.
\<close>

theorem search_result_bounds:
  "(search_web environ post query = Inr sources \<longrightarrow> 1 \<le> length sources \<and> length sources \<le> 5)
   \<and> (search_web environ post query = Inl e \<longrightarrow>
        \<not> is_RequestException e \<and> post (API_KEYS environ ''serper'') query 5 = Inl e)
   \<and> (0 \<le> max_results \<and> truthy (serper_key self) \<and> search_serper self post query max_results = Inr rs \<and> rs \<noteq> [] \<longrightarrow>
        WebSearch_search self post ddgs_text query max_results = Inr rs
        \<and> 1 \<le> length rs \<and> int (length rs) \<le> max_results)
   \<and> (ddgs_text query max_results = Inr items \<and> comprehension ddg_item items = Inr rs' \<longrightarrow>
        search_duckduckgo ddgs_text query max_results = Inr rs' \<and> length rs' = length items)"
proof (intro conjI impI)
  assume "search_web environ post query = Inr sources"
  then show "1 \<le> length sources" "length sources \<le> 5"
    using search_web_length by blast+
next
  assume "search_web environ post query = Inl e"
  then show "\<not> is_RequestException e" "post (API_KEYS environ ''serper'') query 5 = Inl e"
    using search_web_raises by blast+
next
  assume h: "0 \<le> max_results \<and> truthy (serper_key self) \<and> search_serper self post query max_results = Inr rs \<and> rs \<noteq> []"
  then show "WebSearch_search self post ddgs_text query max_results = Inr rs"
    by (simp add: WebSearch_search_def)
  from h show "1 \<le> length rs" by (cases rs) simp_all
  from h show "int (length rs) \<le> max_results" using search_serper_length by blast
next
  assume h: "ddgs_text query max_results = Inr items \<and> comprehension ddg_item items = Inr rs'"
  then show "search_duckduckgo ddgs_text query max_results = Inr rs'"
    by (simp add: search_duckduckgo_def)
  from h show "length rs' = length items" using comprehension_length by blast
qed

theorem search_result_bounds_witness:
  "search_web [''SERPER_API_KEY'' \<mapsto> ''key''] (\<lambda>key q n. Inr \<lparr>organic = Some [], knowledgeGraph = None\<rparr>) ''capital of France'' =
     Inr [\<lparr>title = ''No Results Found'', snippet = ''Try a different search query.'', url = ''#'', source = ''Serper''\<rparr>]
   \<and> search_web [''SERPER_API_KEY'' \<mapsto> ''key''] (\<lambda>key q n. Inl (Exn OtherExc ''not a JSON object'')) ''capital of France'' =
     Inl (Exn OtherExc ''not a JSON object'')
   \<and> WebSearch_search \<lparr>serper_key = Some ''key''\<rparr>
        (\<lambda>key q n. Inr \<lparr>organic = Some [[''title'' \<mapsto> ''Paris''], [''title'' \<mapsto> ''France'']],
                          knowledgeGraph = Some [''description'' \<mapsto> ''City'']\<rparr>)
        (\<lambda>q n. Inl unreachable) ''capital of France'' 2 =
     Inr [\<lparr>title = ''Paris'', snippet = [], url = [], source = ''Google (via Serper)''\<rparr>,
          \<lparr>title = ''France'', snippet = [], url = [], source = ''Google (via Serper)''\<rparr>]
   \<and> search_duckduckgo (\<lambda>q n. Inr [[''title'' \<mapsto> ''Paris'', ''body'' \<mapsto> ''Capital'', ''href'' \<mapsto> ''u'']]) ''capital of France'' 5 =
     Inr [\<lparr>title = ''Paris'', snippet = ''Capital'', url = ''u'', source = ''DuckDuckGo''\<rparr>]"
  using search_result_bounds [where environ = "[''SERPER_API_KEY'' \<mapsto> ''key'']"
      and post = "\<lambda>key q n. Inr \<lparr>organic = Some [], knowledgeGraph = None\<rparr>" and query = "''capital of France''"
      and sources = "[\<lparr>title = ''No Results Found'', snippet = ''Try a different search query.'', url = ''#'', source = ''Serper''\<rparr>]"]
    search_result_bounds [where environ = "[''SERPER_API_KEY'' \<mapsto> ''key'']"
      and post = "\<lambda>key q n. Inl (Exn OtherExc ''not a JSON object'')" and query = "''capital of France''"
      and e = "Exn OtherExc ''not a JSON object''"]
    search_result_bounds [where self = "\<lparr>serper_key = Some ''key''\<rparr>" and max_results = 2 and query = "''capital of France''"
      and post = "\<lambda>key q n. Inr \<lparr>organic = Some [[''title'' \<mapsto> ''Paris''], [''title'' \<mapsto> ''France'']],
                          knowledgeGraph = Some [''description'' \<mapsto> ''City'']\<rparr>"
      and ddgs_text = "\<lambda>q n. Inl unreachable"
      and rs = "[\<lparr>title = ''Paris'', snippet = [], url = [], source = ''Google (via Serper)''\<rparr>,
          \<lparr>title = ''France'', snippet = [], url = [], source = ''Google (via Serper)''\<rparr>]"]
    search_result_bounds [where ddgs_text = "\<lambda>q n. Inr [[''title'' \<mapsto> ''Paris'', ''body'' \<mapsto> ''Capital'', ''href'' \<mapsto> ''u'']]"
      and query = "''capital of France''" and max_results = 5
      and items = "[[''title'' \<mapsto> ''Paris'', ''body'' \<mapsto> ''Capital'', ''href'' \<mapsto> ''u'']]"
      and rs' = "[\<lparr>title = ''Paris'', snippet = ''Capital'', url = ''u'', source = ''DuckDuckGo''\<rparr>]"]
  by (simp add: search_web_def API_KEYS_def organic_items_def py_slice_to_def search_serper_def dict_get_def
      ddg_item_def subscript_def)

subsection \<open>The result cache\<close>

text \<open>
  C4, at concrete calls with a duration of 10 s. The first call, at 0 s, computes and
  stores the value 0. A call at 9 s hits the entry and returns 0. A call at 11 s, two
  seconds after the previous one, finds the entry 11 s old, computes again and returns
  1: two calls within the duration return different values.
\<close>

theorem cache_hit_then_expiry:
  "cache_result 10 counting_compute ''k'' 0 0 Map.empty 0 = (Inr 0, [''k'' \<mapsto> (0, 0)], 1)
   \<and> cache_result 10 counting_compute ''k'' 9 9 [''k'' \<mapsto> (0, 0)] 1 = (Inr 0, [''k'' \<mapsto> (0, 0)], 1)
   \<and> cache_result 10 counting_compute ''k'' 11 11 [''k'' \<mapsto> (0, 0)] 1 = (Inr 1, [''k'' \<mapsto> (1, 11)], 2)
   \<and> (11::real) - 9 < 10
   \<and> (Inr 0 :: exn + nat) \<noteq> Inr 1"
  by (simp add: cache_result_def cache_miss_def counting_compute_def)

lemma cache_result_hit:
  "store cache_key = Some (v, created) \<Longrightarrow> t1 - created < duration \<Longrightarrow>
     cache_result duration func cache_key t1 s1 store w = (Inr v, store, w)"
  by (simp add: cache_result_def)

lemma cache_result_miss:
  "store cache_key = None \<or> (\<exists>v created. store cache_key = Some (v, created) \<and> \<not> t1 - created < duration) \<Longrightarrow>
     cache_result duration func cache_key t1 s1 store w =
       (case func w of
          (Inl e, w') \<Rightarrow> (Inl e, store, w')
        | (Inr result, w') \<Rightarrow> (Inr result, store(cache_key \<mapsto> (result, s1)), w'))"
  by (auto simp: cache_result_def cache_miss_def)

text \<open>
  C4, as the code has it. A call that finds an entry created less than the duration
  before the lookup returns the stored value and does not run the compute function. A
  call that finds no entry, or an older one, runs it once and, when it returns, stores
  the result under the key with the current time, in place of any stale entry. After a
  call that returned, the compute function has run at most once, and every later call
  whose lookup is less than the duration after the creation time of the entry returns
  the same value without running it; after a call that computed, this holds for every
  lookup less than the duration after the lookup of that call.
\<close>

theorem cache_result_round_trip:
  "(store cache_key = Some (v, created) \<and> t1 - created < duration \<longrightarrow>
      cache_result duration func cache_key t1 s1 store w = (Inr v, store, w))
   \<and> ((store cache_key = None
        \<or> (\<exists>v0 created. store cache_key = Some (v0, created) \<and> \<not> t1 - created < duration))
       \<and> func w = (Inr v, w') \<longrightarrow>
      cache_result duration func cache_key t1 s1 store w =
        (Inr v, store(cache_key \<mapsto> (v, s1)), w'))
   \<and> (cache_result duration func cache_key t1 s1 store w = (Inr v, c1, w1) \<longrightarrow>
        (w1 = w \<or> w1 = snd (func w))
        \<and> (\<exists>created. c1 cache_key = Some (v, created)
              \<and> (created = s1 \<or> store cache_key = Some (v, created))
              \<and> (\<forall>t2 s2. t2 - created < duration \<longrightarrow>
                    cache_result duration func cache_key t2 s2 c1 w1 = (Inr v, c1, w1))))
   \<and> ((store cache_key = None
        \<or> (\<exists>v0 created. store cache_key = Some (v0, created) \<and> \<not> t1 - created < duration))
       \<and> cache_result duration func cache_key t1 s1 store w = (Inr v, c1, w1)
       \<and> t1 \<le> s1 \<and> t2 - t1 < duration \<longrightarrow>
      w1 = snd (func w) \<and> cache_result duration func cache_key t2 s2 c1 w1 = (Inr v, c1, w1))"
proof (intro conjI impI)
  assume "store cache_key = Some (v, created) \<and> t1 - created < duration"
  then show "cache_result duration func cache_key t1 s1 store w = (Inr v, store, w)"
    by (simp add: cache_result_hit)
next
  assume "(store cache_key = None
        \<or> (\<exists>v0 created. store cache_key = Some (v0, created) \<and> \<not> t1 - created < duration))
       \<and> func w = (Inr v, w')"
  then show "cache_result duration func cache_key t1 s1 store w =
        (Inr v, store(cache_key \<mapsto> (v, s1)), w')"
    by (simp add: cache_result_miss)
next
  assume a: "cache_result duration func cache_key t1 s1 store w = (Inr v, c1, w1)"
  then show "w1 = w \<or> w1 = snd (func w)"
    by (auto simp: cache_result_def cache_miss_def split: option.splits if_splits prod.splits sum.splits)
  from a consider
    (hit) created where "store cache_key = Some (v, created)" "t1 - created < duration" "c1 = store" "w1 = w"
  | (miss) "c1 = store(cache_key \<mapsto> (v, s1))"
    by (auto simp: cache_result_def cache_miss_def split: option.splits if_splits prod.splits sum.splits)
  then show "\<exists>created. c1 cache_key = Some (v, created)
              \<and> (created = s1 \<or> store cache_key = Some (v, created))
              \<and> (\<forall>t2 s2. t2 - created < duration \<longrightarrow>
                    cache_result duration func cache_key t2 s2 c1 w1 = (Inr v, c1, w1))"
  proof cases
    case hit
    then show ?thesis by (auto simp: cache_result_def)
  next
    case miss
    then show ?thesis by (auto simp: cache_result_def)
  qed
next
  assume a: "(store cache_key = None
        \<or> (\<exists>v0 created. store cache_key = Some (v0, created) \<and> \<not> t1 - created < duration))
       \<and> cache_result duration func cache_key t1 s1 store w = (Inr v, c1, w1)
       \<and> t1 \<le> s1 \<and> t2 - t1 < duration"
  then have m: "func w = (Inr v, w1) \<and> c1 = store(cache_key \<mapsto> (v, s1))"
    by (auto simp: cache_result_def cache_miss_def split: option.splits if_splits prod.splits sum.splits)
  then show "w1 = snd (func w)" by simp
  from a have "t2 - s1 < duration" by linarith
  with m show "cache_result duration func cache_key t2 s2 c1 w1 = (Inr v, c1, w1)"
    by (simp add: cache_result_def)
qed

theorem cache_result_round_trip_witness:
  "(Map.empty :: nat cache) ''k'' = None
   \<and> cache_result 10 counting_compute ''k'' 0 1 Map.empty 0 = (Inr 0, [''k'' \<mapsto> (0, 1)], 1)
   \<and> (0::real) \<le> 1 \<and> (9::real) - 0 < 10
   \<and> cache_result 10 counting_compute ''k'' 9 9 [''k'' \<mapsto> (0, 1)] 1 = (Inr 0, [''k'' \<mapsto> (0, 1)], 1)
   \<and> cache_result 10 counting_compute ''k'' 12 12 [''k'' \<mapsto> (0, 1)] 1 = (Inr 1, [''k'' \<mapsto> (1, 12)], 2)"
  using cache_result_round_trip [where store = "Map.empty :: nat cache" and cache_key = "''k''" and duration = 10
      and func = counting_compute and ?t1.0 = 0 and ?s1.0 = 1 and w = 0 and v = 0 and ?c1.0 = "[''k'' \<mapsto> (0, 1)]"
      and ?w1.0 = 1 and w' = 1 and ?t2.0 = 9 and ?s2.0 = 9]
    cache_result_round_trip [where store = "[''k'' \<mapsto> (0::nat, 1)]" and cache_key = "''k''" and duration = 10
      and func = counting_compute and ?t1.0 = 12 and ?s1.0 = 12 and w = 1 and v = 1 and w' = 2]
  by (simp add: cache_result_def cache_miss_def counting_compute_def)

subsection \<open>The context of the prompt\<close>

text \<open>
  C8, at a concrete source: the context renders the title between bold markers,
  \<^verbatim>\<open>**Paris**: Capital of France\<close>, not as \<^verbatim>\<open>Paris: Capital of France\<close>.
\<close>

theorem build_context_bold_titles:
  "build_context [\<lparr>title = ''Paris'', snippet = ''Capital of France'', url = ''u'', source = ''Serper''\<rparr>] =
     ''**Paris**: Capital of France''
   \<and> spec_context [\<lparr>title = ''Paris'', snippet = ''Capital of France'', url = ''u'', source = ''Serper''\<rparr>] =
     ''Paris: Capital of France''
   \<and> build_context [\<lparr>title = ''Paris'', snippet = ''Capital of France'', url = ''u'', source = ''Serper''\<rparr>] \<noteq>
     spec_context [\<lparr>title = ''Paris'', snippet = ''Capital of France'', url = ''u'', source = ''Serper''\<rparr>]"
  by (simp add: build_context_def spec_context_def)

lemma build_context_filter:
  "build_context (filter (\<lambda>s. source s \<noteq> ''Error'') sources) = build_context sources"
  by (simp add: build_context_def)

lemma generate_answer_context:
  "build_context sources = build_context sources' \<Longrightarrow>
     generate_answer environ sv query sources mode = generate_answer environ sv query sources' mode"
  by (simp add: generate_answer_def generate_answer_groq_def generate_answer_openai_def generate_answer_local_def)

text \<open>
  C8, as the code has it. For every source list the context is the renderings
  \<^verbatim>\<open>**title**: snippet\<close> of the sources not tagged \<^verbatim>\<open>Error\<close>, in their order,
  joined by a blank line. Removing the sources tagged \<^verbatim>\<open>Error\<close>, or adding one
  anywhere, changes neither the context nor the answer of any backend, which depends on
  the sources through the context only. The prompt each backend sends (read back from a
  backend that echoes it) is its fixed text around the query and this context.
\<close>

theorem build_context_excludes_errors:
  "build_context sources =
     join ''\<newline>\<newline>'' (map (\<lambda>s. ''**'' @ title s @ ''**: '' @ snippet s) (filter (\<lambda>s. source s \<noteq> ''Error'') sources))
   \<and> build_context (filter (\<lambda>s. source s \<noteq> ''Error'') sources) = build_context sources
   \<and> (source e = ''Error'' \<longrightarrow> build_context (xs @ e # ys) = build_context (xs @ ys))
   \<and> (build_context sources = build_context sources' \<longrightarrow>
        generate_answer environ sv query sources mode = generate_answer environ sv query sources' mode)
   \<and> generate_answer environ sv query (filter (\<lambda>s. source s \<noteq> ''Error'') sources) mode =
       generate_answer environ sv query sources mode
   \<and> (truthy (API_KEYS environ ''groq'') \<longrightarrow>
        generate_answer_groq environ (\<lambda>r. Inr (snd (hd (cr_messages r)))) query sources =
          hosted_prompt query (build_context sources))
   \<and> (truthy (API_KEYS environ ''openai'') \<longrightarrow>
        generate_answer_openai environ (\<lambda>r. Inr (snd (hd (cr_messages r)))) query sources =
          hosted_prompt query (build_context sources))
   \<and> generate_answer_local environ (\<lambda>m p. Inr \<lparr>status_code = 200, json_response = Inr (Some p)\<rparr>) query sources =
       local_prompt query (build_context sources)"
  using generate_answer_context [of "filter (\<lambda>s. source s \<noteq> ''Error'') sources" sources environ sv query mode]
    generate_answer_context [of sources sources' environ sv query mode]
  by (simp add: build_context_def generate_answer_groq_def generate_answer_openai_def generate_answer_local_def)

theorem build_context_excludes_errors_witness:
  "source \<lparr>title = ''Search Timeout'', snippet = ''The search request took too long. Please try again.'', url = ''#'', source = ''Error''\<rparr> = ''Error''
   \<and> build_context
        ([\<lparr>title = ''Paris'', snippet = ''Capital of France'', url = ''u'', source = ''Serper''\<rparr>]
         @ \<lparr>title = ''Search Timeout'', snippet = ''The search request took too long. Please try again.'', url = ''#'', source = ''Error''\<rparr>
         # [\<lparr>title = ''France'', snippet = ''Country'', url = ''v'', source = ''Serper''\<rparr>]) =
      ''**Paris**: Capital of France\<newline>\<newline>**France**: Country''
   \<and> truthy (API_KEYS [''GROQ_API_KEY'' \<mapsto> ''k''] ''groq'')
   \<and> generate_answer_local [''GROQ_API_KEY'' \<mapsto> ''k''] (\<lambda>m p. Inr \<lparr>status_code = 200, json_response = Inr (Some p)\<rparr>) ''q''
        [\<lparr>title = ''Search Timeout'', snippet = ''The search request took too long. Please try again.'', url = ''#'', source = ''Error''\<rparr>] =
      ''Based on the following sources, answer this question: q\<newline>\<newline>Sources:\<newline>\<newline>\<newline>Provide a comprehensive answer:''"
  using build_context_excludes_errors [where e = "\<lparr>title = ''Search Timeout'', snippet = ''The search request took too long. Please try again.'', url = ''#'', source = ''Error''\<rparr>"
      and xs = "[\<lparr>title = ''Paris'', snippet = ''Capital of France'', url = ''u'', source = ''Serper''\<rparr>]"
      and ys = "[\<lparr>title = ''France'', snippet = ''Country'', url = ''v'', source = ''Serper''\<rparr>]"
      and environ = "[''GROQ_API_KEY'' \<mapsto> ''k'']" and query = "''q''"
      and sources = "[\<lparr>title = ''Search Timeout'', snippet = ''The search request took too long. Please try again.'', url = ''#'', source = ''Error''\<rparr>]"]
  by (simp add: build_context_def API_KEYS_def local_prompt_def)

end
